theory Spec2Isabelle
  imports Main
begin

section \<open>Python values used by the program\<close>

text \<open>
  The exceptions that can leave the functions of \<^verbatim>\<open>train_countdown_app.py\<close>.
  \<open>ValueError\<close> and \<open>OverflowError\<close> come from \<^verbatim>\<open>datetime\<close>; the last three stand for
  what \<^verbatim>\<open>requests.post\<close>, \<^verbatim>\<open>raise_for_status\<close> and \<^verbatim>\<open>ET.fromstring\<close> raise.
\<close>

datatype py_error = ValueError | OverflowError | RequestException | HTTPError | ParseError

text \<open>
  A naive \<^verbatim>\<open>datetime\<close>. The calendar date is carried as its proleptic Gregorian ordinal
  (\<^verbatim>\<open>date.toordinal()\<close>, from 1 for 0001-01-01 to 3652059 for 9999-12-31); the program never
  looks at year, month or day separately.
\<close>

record datetime =
  ordinal :: int
  hour :: int
  minute :: int
  second :: int
  microsecond :: int

definition MINORDINAL :: int where
  "MINORDINAL = 1"

definition MAXORDINAL :: int where
  "MAXORDINAL = 3652059"

definition valid_datetime :: "datetime \<Rightarrow> bool" where
  "valid_datetime d \<longleftrightarrow>
     MINORDINAL \<le> ordinal d \<and> ordinal d \<le> MAXORDINAL \<and>
     0 \<le> hour d \<and> hour d < 24 \<and> 0 \<le> minute d \<and> minute d < 60 \<and>
     0 \<le> second d \<and> second d < 60 \<and> 0 \<le> microsecond d \<and> microsecond d < 1000000"

text \<open>The time-of-day fields of a datetime are in range (the date may be any day).\<close>

definition time_fields_ok :: "datetime \<Rightarrow> bool" where
  "time_fields_ok d \<longleftrightarrow>
     0 \<le> hour d \<and> hour d < 24 \<and> 0 \<le> minute d \<and> minute d < 60 \<and>
     0 \<le> second d \<and> second d < 60 \<and> 0 \<le> microsecond d \<and> microsecond d < 1000000"

text \<open>Microseconds since the midnight that starts ordinal day 0: the instant a datetime names.\<close>

definition to_us :: "datetime \<Rightarrow> int" where
  "to_us d = (((ordinal d * 24 + hour d) * 60 + minute d) * 60 + second d) * 1000000 + microsecond d"

definition from_us :: "int \<Rightarrow> datetime" where
  "from_us t = \<lparr> ordinal = t div 86400000000, hour = t div 3600000000 mod 24,
                 minute = t div 60000000 mod 60, second = t div 1000000 mod 60,
                 microsecond = t mod 1000000 \<rparr>"

text \<open>\<^verbatim>\<open>timedelta(hours=h)\<close> and \<^verbatim>\<open>timedelta(days=n)\<close>, \<^verbatim>\<open>timedelta(seconds=s)\<close>, in microseconds.\<close>

definition timedelta_hours :: "int \<Rightarrow> int" where
  "timedelta_hours h = h * 3600000000"

definition timedelta_days :: "int \<Rightarrow> int" where
  "timedelta_days n = n * 86400000000"

definition timedelta_seconds :: "int \<Rightarrow> int" where
  "timedelta_seconds s = s * 1000000"

text \<open>
  \<^verbatim>\<open>d + delta\<close> (and \<^verbatim>\<open>d - delta\<close> as \<open>dt_add d (- delta)\<close>): Python raises
  \<^verbatim>\<open>OverflowError("date value out of range")\<close> when the result leaves years 1..9999.
\<close>

definition dt_add :: "datetime \<Rightarrow> int \<Rightarrow> py_error + datetime" where
  "dt_add d delta =
     (let t = to_us d + delta in
      if MINORDINAL \<le> t div 86400000000 \<and> t div 86400000000 \<le> MAXORDINAL
      then Inr (from_us t) else Inl OverflowError)"

text \<open>\<^verbatim>\<open>a < b\<close> on naive datetimes: the order of the instants.\<close>

definition dt_less :: "datetime \<Rightarrow> datetime \<Rightarrow> bool" where
  "dt_less a b \<longleftrightarrow> to_us a < to_us b"

text \<open>
  \<^verbatim>\<open>now.replace(hour=hh, minute=mm, second=0, microsecond=0)\<close>. CPython converts the
  arguments to C ints first (\<^verbatim>\<open>OverflowError\<close> outside 32 bits), then checks
  \<^verbatim>\<open>hour must be in 0..23\<close> and \<^verbatim>\<open>minute must be in 0..59\<close> (\<^verbatim>\<open>ValueError\<close>).
\<close>

definition c_int_range :: "int \<Rightarrow> bool" where
  "c_int_range n \<longleftrightarrow> - 2147483648 \<le> n \<and> n \<le> 2147483647"

definition dt_replace :: "datetime \<Rightarrow> int \<Rightarrow> int \<Rightarrow> py_error + datetime" where
  "dt_replace d hh mm =
     (if \<not> (c_int_range hh \<and> c_int_range mm) then Inl OverflowError
      else if \<not> (0 \<le> hh \<and> hh < 24) then Inl ValueError
      else if \<not> (0 \<le> mm \<and> mm < 60) then Inl ValueError
      else Inr (d\<lparr>hour := hh, minute := mm, second := 0, microsecond := 0\<rparr>))"

subsection \<open>Strings, \<^verbatim>\<open>str.split(":")\<close> and \<^verbatim>\<open>int(str)\<close>\<close>

text \<open>
  Field strings are byte strings (UTF-8). On a field of ASCII characters \<open>py_int\<close> is
  \<^verbatim>\<open>int(s)\<close>: optional ASCII white space on both sides, an optional sign, then decimal
  digits in which single underscores may separate digits; \<open>None\<close> is the \<^verbatim>\<open>ValueError\<close>
  of \<^verbatim>\<open>int\<close>. Beyond ASCII, \<^verbatim>\<open>int\<close> also strips the spaces and reads the decimal digits
  of the interpreter's Unicode tables, which \<open>py_int\<close> does not: a result that rests on
  \<open>py_int\<close> rejecting a field is stated for fields that are \<open>ascii_only\<close>. The
  interpreter's configurable limit on the number of digits is not part of the model.
\<close>

definition ascii_only :: "string \<Rightarrow> bool" where
  "ascii_only s \<longleftrightarrow> list_all (\<lambda>c. (of_char c :: nat) < 128) s"

definition is_space :: "char \<Rightarrow> bool" where
  "is_space c \<longleftrightarrow> c \<in> set [CHR 0x09, CHR 0x0A, CHR 0x0B, CHR 0x0C, CHR 0x0D, CHR '' '']"

definition is_digit :: "char \<Rightarrow> bool" where
  "is_digit c \<longleftrightarrow> c \<in> set ''0123456789''"

definition digit_val :: "char \<Rightarrow> int" where
  "digit_val c = int (of_char c) - 48"

definition strip :: "string \<Rightarrow> string" where
  "strip s = rev (dropWhile is_space (rev (dropWhile is_space s)))"

fun body_ok :: "string \<Rightarrow> bool" where
  "body_ok [] = False"
| "body_ok [c] = is_digit c"
| "body_ok (c # d # cs) =
     (is_digit c \<and> (if d = CHR ''_'' then body_ok cs else body_ok (d # cs)))"

definition body_val :: "string \<Rightarrow> int" where
  "body_val s = foldl (\<lambda>acc c. acc * 10 + digit_val c) 0 (filter (\<lambda>c. c \<noteq> CHR ''_'') s)"

definition py_int :: "string \<Rightarrow> int option" where
  "py_int s =
     (case strip s of
        c # r \<Rightarrow>
          if c = CHR ''-'' then (if body_ok r then Some (- body_val r) else None)
          else if c = CHR ''+'' then (if body_ok r then Some (body_val r) else None)
          else (if body_ok (c # r) then Some (body_val (c # r)) else None)
      | [] \<Rightarrow> None)"

text \<open>\<^verbatim>\<open>s.split(":")\<close>: always at least one field.\<close>

fun split_colon :: "string \<Rightarrow> string list" where
  "split_colon [] = [[]]"
| "split_colon (c # cs) =
     (if c = CHR '':'' then [] # split_colon cs
      else (case split_colon cs of p # ps \<Rightarrow> (c # p) # ps | [] \<Rightarrow> [[c]]))"

text \<open>
  \<^verbatim>\<open>hh, mm = map(int, tstr.split(":"))\<close> inside \<^verbatim>\<open>try ... except Exception\<close>: a value
  only when there are exactly two fields and \<^verbatim>\<open>int\<close> accepts both; every other case
  raises inside the \<^verbatim>\<open>try\<close> and is \<open>None\<close> here.
\<close>

definition unpack_hh_mm :: "string \<Rightarrow> (int \<times> int) option" where
  "unpack_hh_mm tstr =
     (case map py_int (split_colon tstr) of
        [Some hh, Some mm] \<Rightarrow> Some (hh, mm)
      | _ \<Rightarrow> None)"

section \<open>The departure resolver\<close>

text \<open>
  \<open>parse_time_hhmm now tstr\<close>: \<open>now\<close> is the value \<^verbatim>\<open>datetime.now()\<close> returns on the
  first line of the call. \<open>Inr None\<close> is \<^verbatim>\<open>return None\<close>; \<open>Inl e\<close> is an exception
  leaving the function.
\<close>

definition parse_time_hhmm :: "datetime \<Rightarrow> string \<Rightarrow> py_error + datetime option" where
  "parse_time_hhmm now tstr =
     (case unpack_hh_mm tstr of
        None \<Rightarrow> Inr None
      | Some (hh, mm) \<Rightarrow>
          (case dt_replace now hh mm of
             Inl e \<Rightarrow> Inl e
           | Inr candidate \<Rightarrow>
               (case dt_add now (- timedelta_hours 6) of
                  Inl e \<Rightarrow> Inl e
                | Inr limit \<Rightarrow>
                    if dt_less candidate limit
                    then (case dt_add candidate (timedelta_days 1) of
                            Inl e \<Rightarrow> Inl e
                          | Inr c \<Rightarrow> Inr (Some c))
                    else Inr (Some candidate))))"

text \<open>
  \<open>best_departure_datetime now_e now_s std etd\<close>: \<open>now_e\<close> is the clock reading of the
  call of \<open>parse_time_hhmm\<close> on \<open>etd\<close> and \<open>now_s\<close> that of the call on \<open>std\<close>, when they
  are made. A datetime is always truthy, so \<^verbatim>\<open>if dt:\<close> tests for \<^verbatim>\<open>None\<close>.
\<close>

definition from_std :: "datetime \<Rightarrow> string \<Rightarrow> py_error + (datetime option \<times> string option)" where
  "from_std now_s std =
     (if std \<noteq> [] then
        (case parse_time_hhmm now_s std of
           Inl e \<Rightarrow> Inl e
         | Inr (Some dt) \<Rightarrow> Inr (Some dt, Some ''Scheduled'')
         | Inr None \<Rightarrow> Inr (None, None))
      else Inr (None, None))"

definition best_departure_datetime ::
  "datetime \<Rightarrow> datetime \<Rightarrow> string \<Rightarrow> string \<Rightarrow> py_error + (datetime option \<times> string option)" where
  "best_departure_datetime now_e now_s std etd =
     (if etd \<noteq> [] \<and> CHR '':'' \<in> set etd then
        (case parse_time_hhmm now_e etd of
           Inl e \<Rightarrow> Inl e
         | Inr (Some dt) \<Rightarrow> Inr (Some dt, Some ''Estimated'')
         | Inr None \<Rightarrow> from_std now_s std)
      else from_std now_s std)"

section \<open>Formatting\<close>

text \<open>
  \<^verbatim>\<open>str(n)\<close> of an integer as an f-string prints it, \<^verbatim>\<open>{n:02d}\<close> and the fields of
  \<^verbatim>\<open>strftime("%H:%M:%S")\<close>. Characters outside ASCII are written as their UTF-8 bytes.
\<close>

definition digit_char :: "nat \<Rightarrow> char" where
  "digit_char n = ''0123456789'' ! (n mod 10)"

fun show_nat :: "nat \<Rightarrow> string" where
  "show_nat n = (if n < 10 then [digit_char n] else show_nat (n div 10) @ [digit_char (n mod 10)])"

definition show_int :: "int \<Rightarrow> string" where
  "show_int i = (if i < 0 then CHR ''-'' # show_nat (nat (- i)) else show_nat (nat i))"

definition pad2 :: "int \<Rightarrow> string" where
  "pad2 i = (let s = show_int i in if length s < 2 then CHR ''0'' # s else s)"

definition strftime_HMS :: "datetime \<Rightarrow> string" where
  "strftime_HMS d = pad2 (hour d) @ '':'' @ pad2 (minute d) @ '':'' @ pad2 (second d)"

definition arrow :: string where
  "arrow = [CHR 0xE2, CHR 0x86, CHR 0x92]"

definition alarm_clock :: string where
  "alarm_clock = [CHR 0xE2, CHR 0x8F, CHR 0xB0]"

definition ellipsis :: string where
  "ellipsis = [CHR 0xE2, CHR 0x80, CHR 0xA6]"

section \<open>Fetching and assembling services\<close>

text \<open>
  What the loop of \<open>fetch_services\<close> extracts from one \<^verbatim>\<open>ldb:service\<close> element.
  \<^verbatim>\<open>findtext(..., default="")\<close> always gives a string; \<open>destination\<close> is
  \<^verbatim>\<open>dest_node.text\<close>, which is \<^verbatim>\<open>None\<close> for an element without text.
\<close>

record raw_service =
  std :: string
  etd :: string
  operator :: string
  destination :: "string option"
  platform :: string

text \<open>The dictionary appended to \<^verbatim>\<open>services\<close>; \<open>basis = None\<close> is Python's \<^verbatim>\<open>None\<close>.\<close>

record service = raw_service +
  basis :: "string option"
  depart_dt :: "datetime option"

text \<open>
  The outcome of the request and of parsing the reply: an exception of \<^verbatim>\<open>requests.post\<close>,
  \<^verbatim>\<open>raise_for_status\<close> or \<^verbatim>\<open>ET.fromstring\<close>, or the service elements found, in order.
\<close>

datatype response = Failed py_error | Board "raw_service list"

text \<open>
  The \<^verbatim>\<open>for svc in ...\<close> loop, with the list built so far. \<open>clk i\<close> gives the two clock
  readings available to the resolver while the \<open>i\<close>-th service is processed.
\<close>

fun services_loop ::
  "(nat \<Rightarrow> datetime \<times> datetime) \<Rightarrow> nat \<Rightarrow> service list \<Rightarrow> raw_service list \<Rightarrow> py_error + service list" where
  "services_loop clk i services [] = Inr services"
| "services_loop clk i services (svc # rest) =
     (case best_departure_datetime (fst (clk i)) (snd (clk i)) (std svc) (etd svc) of
        Inl e \<Rightarrow> Inl e
      | Inr (depart, b) \<Rightarrow>
          services_loop clk (Suc i)
            (services @ [\<lparr> std = std svc, etd = etd svc, operator = operator svc,
                           destination = destination svc, platform = platform svc,
                           basis = b, depart_dt = depart \<rparr>])
            rest)"

definition fetch_services :: "(nat \<Rightarrow> datetime \<times> datetime) \<Rightarrow> response \<Rightarrow> py_error + service list" where
  "fetch_services clk resp =
     (case resp of Failed e \<Rightarrow> Inl e | Board svcs \<Rightarrow> services_loop clk 0 [] svcs)"

section \<open>The user interface\<close>

text \<open>The keys of \<^verbatim>\<open>st.session_state\<close>; \<open>None\<close> is an absent key.\<close>

record session =
  services :: "service list option"
  target_dt :: "datetime option option"
  chosen :: "service option"

text \<open>\<^verbatim>\<open>st.error(f"Error fetching services: {e}")\<close> and \<^verbatim>\<open>st.warning(text)\<close>.\<close>

datatype notice = St_error py_error | St_warning string

text \<open>
  The remote service: \<open>net k\<close> is the outcome of the \<open>k\<close>-th request sent to it, counting
  from 0. A call of \<open>fetch_services\<close> made when \<open>sent\<close> requests have gone out posts one
  request, number \<open>sent\<close>, and works on its outcome; the second component is the number
  of requests sent after the call.
\<close>

definition call_fetch_services ::
  "(nat \<Rightarrow> datetime \<times> datetime) \<Rightarrow> (nat \<Rightarrow> response) \<Rightarrow> nat \<Rightarrow> (py_error + service list) \<times> nat" where
  "call_fetch_services clk net sent = (fetch_services clk (net sent), Suc sent)"

text \<open>
  The body of \<^verbatim>\<open>if st.button("Fetch Services"):\<close>: the notices shown, the session state
  afterwards and the number of requests sent by then.
\<close>

definition fetch_button ::
  "(nat \<Rightarrow> datetime \<times> datetime) \<Rightarrow> (nat \<Rightarrow> response) \<Rightarrow> nat \<Rightarrow> session
     \<Rightarrow> notice list \<times> session \<times> nat" where
  "fetch_button clk net sent st =
     (let (result, sent') = call_fetch_services clk net sent;
          (shown, svcs) =
            (case result of
               Inr svcs \<Rightarrow> ([], svcs)
             | Inl e \<Rightarrow> ([St_error e], []))
      in if svcs = [] then (shown @ [St_warning ''No services found.''], st, sent')
         else (shown, st\<lparr>services := Some svcs\<rparr>, sent'))"

text \<open>An f-string prints \<^verbatim>\<open>None\<close> as \<^verbatim>\<open>None\<close>.\<close>

definition py_str :: "string option \<Rightarrow> string" where
  "py_str x = (case x of None \<Rightarrow> ''None'' | Some s \<Rightarrow> s)"

definition option_label :: "nat \<Rightarrow> service \<Rightarrow> string" where
  "option_label i s =
     show_nat (i + 1) @ ''. '' @ std s @ '' '' @ arrow @ '' '' @ py_str (destination s) @ '' ''
     @ ''(ETD '' @ etd s @ '', Plat '' @ platform s @ '', '' @ operator s @ '')''"

definition options :: "service list \<Rightarrow> string list" where
  "options svcs = map (\<lambda>(i, s). option_label i s) (enumerate 0 svcs)"

text \<open>The list under "Available Services": nothing is drawn while the key is absent.\<close>

definition displayed_options :: "session \<Rightarrow> string list option" where
  "displayed_options st = (case services st of None \<Rightarrow> None | Some svcs \<Rightarrow> Some (options svcs))"

text \<open>
  The format of an option as the specification words it:
  \<^verbatim>\<open><std> -> <destination> (ETD <etd>, Platform <platform>, <operator>)\<close>, the arrow being
  U+2192.
\<close>

definition spec_option_label :: "service \<Rightarrow> string" where
  "spec_option_label s =
     std s @ '' '' @ arrow @ '' '' @ py_str (destination s)
     @ '' (ETD '' @ etd s @ '', Platform '' @ platform s @ '', '' @ operator s @ '')''"

subsection \<open>The countdown loop\<close>

text \<open>
  \<^verbatim>\<open>int((target - now).total_seconds())\<close>: the difference in whole seconds, rounded
  towards zero. The difference is a whole number of microseconds; its correctly rounded
  float quotient by \<^verbatim>\<open>10**6\<close> lies within half a microsecond of the exact one at every
  distance below 2^34 seconds (some 540 years), so \<^verbatim>\<open>int\<close> gives the exact truncation
  there. The distances of the countdown are about a day.
\<close>

definition total_sec :: "datetime \<Rightarrow> datetime \<Rightarrow> int" where
  "total_sec target now =
     (let d = to_us target - to_us now
      in if 0 \<le> d then d div 1000000 else - ((- d) div 1000000))"

text \<open>The two \<^verbatim>\<open>st.empty()\<close> slots; \<open>None\<close> is a slot nothing has been written to.\<close>

record display =
  placeholder :: "string option"
  status :: "string option"

text \<open>
  One pass through the body of \<^verbatim>\<open>while True:\<close> with the clock reading \<open>now\<close>: the
  display afterwards, and whether \<^verbatim>\<open>break\<close> was reached.
\<close>

definition countdown_step :: "datetime \<Rightarrow> datetime \<Rightarrow> display \<Rightarrow> py_error + (display \<times> bool)" where
  "countdown_step target now disp =
     (let total = total_sec target now in
      if total \<le> 0 then
        Inr (disp\<lparr>placeholder := Some (''## '' @ alarm_clock @ '' Departing now!'')\<rparr>, True)
      else if total > 300 then
        (let until_start = total - 300; mm = until_start div 60; ss = until_start mod 60 in
         case dt_add now (timedelta_seconds until_start) of
           Inl e \<Rightarrow> Inl e
         | Inr start_at \<Rightarrow>
             Inr (disp\<lparr>status := Some (''5-minute countdown will begin at '' @ strftime_HMS start_at
                                          @ '' (in '' @ show_int mm @ ''m '' @ show_int ss @ ''s)''),
                        placeholder := Some ''## --:--''\<rparr>, False))
      else
        (let mm = total div 60; ss = total mod 60 in
         Inr (disp\<lparr>status := Some (''Counting down to departure'' @ ellipsis),
                    placeholder := Some (''## '' @ pad2 mm @ '':'' @ pad2 ss)\<rparr>, False)))"

text \<open>
  The loop, driven by the successive clock readings (\<^verbatim>\<open>time.sleep(1)\<close> lies between
  them). The result is the display after each pass and whether the loop has ended; with
  the readings used up and no \<^verbatim>\<open>break\<close> the loop is still running.
\<close>

fun countdown_loop :: "datetime \<Rightarrow> datetime list \<Rightarrow> display \<Rightarrow> py_error + (display list \<times> bool)" where
  "countdown_loop target [] disp = Inr ([], False)"
| "countdown_loop target (now # rest) disp =
     (case countdown_step target now disp of
        Inl e \<Rightarrow> Inl e
      | Inr (disp', stop) \<Rightarrow>
          if stop then Inr ([disp'], True)
          else (case countdown_loop target rest disp' of
                  Inl e \<Rightarrow> Inl e
                | Inr (shown, ended) \<Rightarrow> Inr (disp' # shown, ended)))"

text \<open>A clock that stands still: both readings of every pass are the instant \<open>now\<close>.\<close>

definition steady_clock :: "datetime \<Rightarrow> nat \<Rightarrow> datetime \<times> datetime" where
  "steady_clock now i = (now, now)"

text \<open>
  A service that answers the first requests as listed, and whose connection fails on
  every later one.
\<close>

definition scripted :: "response list \<Rightarrow> nat \<Rightarrow> response" where
  "scripted rs k = (if k < length rs then rs ! k else Failed RequestException)"

section \<open>Arithmetic of instants\<close>

lemma div_mod_block:
  fixes a b r :: int
  assumes "0 \<le> r" "r < b"
  shows "(a * b + r) div b = a" and "(a * b + r) mod b = r"
  using assms by (simp_all add: div_pos_pos_trivial)

lemma from_us_shift:
  assumes "time_fields_ok d"
  shows "from_us (to_us d + k * 86400000000) = d\<lparr>ordinal := ordinal d + k\<rparr>"
proof -
  let ?t = "to_us d + k * 86400000000"
  let ?o = "ordinal d + k"
  from assms have r: "0 \<le> hour d" "hour d < 24" "0 \<le> minute d" "minute d < 60"
    "0 \<le> second d" "second d < 60" "0 \<le> microsecond d" "microsecond d < 1000000"
    by (simp_all add: time_fields_ok_def)
  have e1: "?t = (((?o * 24 + hour d) * 60 + minute d) * 60 + second d) * 1000000 + microsecond d"
    by (simp add: to_us_def algebra_simps)
  have e2: "?t = ((?o * 24 + hour d) * 60 + minute d) * 60000000 + (second d * 1000000 + microsecond d)"
    by (simp add: to_us_def algebra_simps)
  have e3: "?t = (?o * 24 + hour d) * 3600000000 + (minute d * 60000000 + second d * 1000000 + microsecond d)"
    by (simp add: to_us_def algebra_simps)
  have e4: "?t = ?o * 86400000000 + (hour d * 3600000000 + minute d * 60000000 + second d * 1000000 + microsecond d)"
    by (simp add: to_us_def algebra_simps)
  have m: "?t mod 1000000 = microsecond d"
    unfolding e1 using r by (intro div_mod_block(2)) simp_all
  have s1: "?t div 1000000 = ((?o * 24 + hour d) * 60 + minute d) * 60 + second d"
    unfolding e1 using r by (intro div_mod_block(1)) simp_all
  have s: "?t div 1000000 mod 60 = second d"
    unfolding s1 using r by (intro div_mod_block(2)) simp_all
  have mi1: "?t div 60000000 = (?o * 24 + hour d) * 60 + minute d"
    unfolding e2 using r by (intro div_mod_block(1)) simp_all
  have mi: "?t div 60000000 mod 60 = minute d"
    unfolding mi1 using r by (intro div_mod_block(2)) simp_all
  have h1: "?t div 3600000000 = ?o * 24 + hour d"
    unfolding e3 using r by (intro div_mod_block(1)) simp_all
  have h: "?t div 3600000000 mod 24 = hour d"
    unfolding h1 using r by (intro div_mod_block(2)) simp_all
  have o: "?t div 86400000000 = ?o"
    unfolding e4 using r by (intro div_mod_block(1)) simp_all
  show ?thesis
    unfolding from_us_def m s mi h o by simp
qed

lemma to_us_from_us: "to_us (from_us t) = t"
proof -
  define s where "s = t div 1000000"
  define m where "m = s div 60"
  define h where "h = m div 60"
  have d1: "t div 60000000 = m"
    using zdiv_zmult2_eq [of 60 t 1000000] by (simp add: s_def m_def)
  have d2: "t div 3600000000 = h"
    using zdiv_zmult2_eq [of 60 t 60000000] by (simp add: d1 h_def)
  have d3: "t div 86400000000 = h div 24"
    using zdiv_zmult2_eq [of 24 t 3600000000] by (simp add: d2)
  have "to_us (from_us t) = (((h div 24 * 24 + h mod 24) * 60 + m mod 60) * 60 + s mod 60) * 1000000 + t mod 1000000"
    by (simp add: to_us_def from_us_def d1 d2 d3 s_def)
  also have "\<dots> = ((h * 60 + m mod 60) * 60 + s mod 60) * 1000000 + t mod 1000000"
    by simp
  also have "\<dots> = (m * 60 + s mod 60) * 1000000 + t mod 1000000"
    by (simp add: h_def)
  also have "\<dots> = s * 1000000 + t mod 1000000"
    by (simp add: m_def)
  also have "\<dots> = t"
    by (simp add: s_def)
  finally show ?thesis .
qed

lemma day_div_lower:
  fixes t a :: int
  assumes "a * 86400000000 \<le> t"
  shows "a \<le> t div 86400000000"
proof -
  have "86400000000 * (t div 86400000000) + t mod 86400000000 = t" by simp
  moreover have "t mod 86400000000 < 86400000000" by simp
  ultimately show ?thesis using assms by linarith
qed

lemma day_div_upper:
  fixes t a :: int
  assumes "t < a * 86400000000 + 86400000000"
  shows "t div 86400000000 \<le> a"
proof -
  have "86400000000 * (t div 86400000000) + t mod 86400000000 = t" by simp
  moreover have "0 \<le> t mod 86400000000" by simp
  ultimately show ?thesis using assms by linarith
qed

lemma to_us_bounds:
  assumes "time_fields_ok d"
  shows "ordinal d * 86400000000 \<le> to_us d" and "to_us d < ordinal d * 86400000000 + 86400000000"
  using assms by (simp_all add: time_fields_ok_def to_us_def)

lemma valid_time_fields: "valid_datetime d \<Longrightarrow> time_fields_ok d"
  by (simp add: valid_datetime_def time_fields_ok_def)

lemma dt_add_minus_6h:
  assumes "valid_datetime now" "MINORDINAL < ordinal now"
  shows "dt_add now (- timedelta_hours 6) = Inr (from_us (to_us now - 21600000000))"
proof -
  have tf: "time_fields_ok now" using assms(1) by (rule valid_time_fields)
  have hi: "ordinal now \<le> MAXORDINAL" using assms(1) by (simp add: valid_datetime_def)
  have lo: "(ordinal now - 1) * 86400000000 \<le> to_us now - 21600000000"
    using to_us_bounds(1) [OF tf] by simp
  have up: "to_us now - 21600000000 < ordinal now * 86400000000 + 86400000000"
    using to_us_bounds(2) [OF tf] by simp
  have "MINORDINAL \<le> (to_us now - 21600000000) div 86400000000"
    using day_div_lower [OF lo] assms(2) by simp
  moreover have "(to_us now - 21600000000) div 86400000000 \<le> MAXORDINAL"
    using day_div_upper [OF up] hi by simp
  ultimately show ?thesis
    by (simp add: dt_add_def timedelta_hours_def)
qed

lemma dt_add_one_day:
  assumes "time_fields_ok c" "MINORDINAL \<le> ordinal c" "ordinal c < MAXORDINAL"
  shows "dt_add c (timedelta_days 1) = Inr (c\<lparr>ordinal := ordinal c + 1\<rparr>)"
proof -
  have f: "from_us (to_us c + 1 * 86400000000) = c\<lparr>ordinal := ordinal c + 1\<rparr>"
    using assms(1) by (rule from_us_shift)
  have "(to_us c + 86400000000) div 86400000000 = ordinal (from_us (to_us c + 1 * 86400000000))"
    by (simp add: from_us_def)
  also have "\<dots> = ordinal c + 1" by (simp only: f) simp
  finally have o: "(to_us c + 86400000000) div 86400000000 = ordinal c + 1" .
  show ?thesis
    using f o assms(2,3) by (simp add: dt_add_def timedelta_days_def)
qed

lemma dt_replace_ok:
  assumes "0 \<le> hh" "hh < 24" "0 \<le> mm" "mm < 60"
  shows "dt_replace now hh mm = Inr (now\<lparr>hour := hh, minute := mm, second := 0, microsecond := 0\<rparr>)"
  using assms by (simp add: dt_replace_def c_int_range_def)

section \<open>Parsing of concrete fields\<close>

lemma unpack_0010: "unpack_hh_mm ''00:10'' = Some (0, 10)"
  by code_simp

lemma unpack_0430: "unpack_hh_mm ''04:30'' = Some (4, 30)"
  by code_simp

lemma unpack_1405: "unpack_hh_mm ''14:05'' = Some (14, 5)"
  by code_simp

lemma unpack_2500: "unpack_hh_mm ''25:00'' = Some (25, 0)"
  by code_simp

lemma unpack_1275: "unpack_hh_mm ''12:75'' = Some (12, 75)"
  by code_simp

lemma unpack_empty: "unpack_hh_mm [] = None"
  by code_simp

lemma unpack_Cancelled: "unpack_hh_mm ''Cancelled'' = None"
  by code_simp

lemma unpack_Delayed: "unpack_hh_mm ''Delayed'' = None"
  by code_simp

section \<open>Clock-time anchoring\<close>

lemma parse_time_hhmm_value:
  assumes "valid_datetime now" and "MINORDINAL < ordinal now" and "ordinal now < MAXORDINAL"
    and "unpack_hh_mm tstr = Some (hh, mm)"
    and "0 \<le> hh" and "hh < 24" and "0 \<le> mm" and "mm < 60"
  shows "parse_time_hhmm now tstr =
           Inr (Some (if to_us (now\<lparr>hour := hh, minute := mm, second := 0, microsecond := 0\<rparr>)
                          < to_us now - timedelta_hours 6
                      then now\<lparr>ordinal := ordinal now + 1, hour := hh, minute := mm,
                                second := 0, microsecond := 0\<rparr>
                      else now\<lparr>hour := hh, minute := mm, second := 0, microsecond := 0\<rparr>))"
proof -
  let ?c = "now\<lparr>hour := hh, minute := mm, second := 0, microsecond := 0\<rparr>"
  have r: "dt_replace now hh mm = Inr ?c"
    using assms(5-8) by (rule dt_replace_ok)
  have l: "dt_add now (- timedelta_hours 6) = Inr (from_us (to_us now - 21600000000))"
    using assms(1,2) by (rule dt_add_minus_6h)
  have tf: "time_fields_ok ?c"
    using assms(5-8) by (simp add: time_fields_ok_def)
  have "MINORDINAL \<le> ordinal ?c" "ordinal ?c < MAXORDINAL"
    using assms(2,3) by simp_all
  with tf have a: "dt_add ?c (timedelta_days 1) = Inr (?c\<lparr>ordinal := ordinal ?c + 1\<rparr>)"
    by (rule dt_add_one_day)
  have cmp: "dt_less ?c (from_us (to_us now - 21600000000)) \<longleftrightarrow> to_us ?c < to_us now - timedelta_hours 6"
    by (simp add: dt_less_def to_us_from_us timedelta_hours_def)
  show ?thesis
  proof (cases "to_us ?c < to_us now - timedelta_hours 6")
    case True
    then show ?thesis
      using assms(4) r l a cmp by (simp add: parse_time_hhmm_def)
  next
    case False
    then show ?thesis
      using assms(4) r l cmp by (simp add: parse_time_hhmm_def)
  qed
qed

text \<open>
  C1. For a field that parses to an hour in 0..23 and a minute in 0..59, and a clock
  reading \<open>now\<close> (a valid datetime, not on the first or the last day a datetime can
  hold), \<open>parse_time_hhmm\<close> returns today's date at hh:mm:00.000000, moved to the next
  day (same time of day, ordinal plus one) exactly when that candidate is strictly
  earlier than \<open>now\<close> minus six hours.
\<close>

theorem parse_time_hhmm_anchoring:
  assumes "valid_datetime now" and "MINORDINAL < ordinal now" and "ordinal now < MAXORDINAL"
    and "unpack_hh_mm tstr = Some (hh, mm)"
    and "0 \<le> hh" and "hh < 24" and "0 \<le> mm" and "mm < 60"
  shows "parse_time_hhmm now tstr =
           Inr (Some (if to_us (now\<lparr>hour := hh, minute := mm, second := 0, microsecond := 0\<rparr>)
                          < to_us now - timedelta_hours 6
                      then now\<lparr>ordinal := ordinal now + 1, hour := hh, minute := mm,
                                second := 0, microsecond := 0\<rparr>
                      else now\<lparr>hour := hh, minute := mm, second := 0, microsecond := 0\<rparr>))"
  using assms by (rule parse_time_hhmm_value)

text \<open>
  The examples of C1: at 23:50 the field 00:10 is resolved to 00:10 on the next day; at
  10:00 the field 04:30 stays today; at 10:30 the field 04:30 is exactly six hours back
  and stays today as well.
\<close>

theorem parse_time_hhmm_anchoring_witness:
  "parse_time_hhmm \<lparr>ordinal = 739000, hour = 23, minute = 50, second = 0, microsecond = 0\<rparr> ''00:10''
     = Inr (Some \<lparr>ordinal = 739001, hour = 0, minute = 10, second = 0, microsecond = 0\<rparr>)
   \<and> parse_time_hhmm \<lparr>ordinal = 739000, hour = 10, minute = 0, second = 0, microsecond = 0\<rparr> ''04:30''
     = Inr (Some \<lparr>ordinal = 739000, hour = 4, minute = 30, second = 0, microsecond = 0\<rparr>)
   \<and> parse_time_hhmm \<lparr>ordinal = 739000, hour = 10, minute = 30, second = 0, microsecond = 0\<rparr> ''04:30''
     = Inr (Some \<lparr>ordinal = 739000, hour = 4, minute = 30, second = 0, microsecond = 0\<rparr>)"
  using
    parse_time_hhmm_anchoring [of "\<lparr>ordinal = 739000, hour = 23, minute = 50, second = 0, microsecond = 0\<rparr>" "''00:10''" 0 10]
    parse_time_hhmm_anchoring [of "\<lparr>ordinal = 739000, hour = 10, minute = 0, second = 0, microsecond = 0\<rparr>" "''04:30''" 4 30]
    parse_time_hhmm_anchoring [of "\<lparr>ordinal = 739000, hour = 10, minute = 30, second = 0, microsecond = 0\<rparr>" "''04:30''" 4 30]
  by (simp add: unpack_0010 unpack_0430 valid_datetime_def MINORDINAL_def MAXORDINAL_def
        to_us_def timedelta_hours_def)

section \<open>Fields out of clock range\<close>

text \<open>
  C7. The fields 25:00 and 12:75 are colon-separated pairs of integers, so the \<^verbatim>\<open>try\<close>
  block of \<open>parse_time_hhmm\<close> succeeds on them; \<^verbatim>\<open>replace\<close>, outside the \<^verbatim>\<open>try\<close>,
  then raises \<^verbatim>\<open>ValueError\<close>, which leaves \<open>parse_time_hhmm\<close> and
  \<open>best_departure_datetime\<close> whatever the clock and the other field are.
\<close>

theorem out_of_range_field_raises:
  "unpack_hh_mm ''25:00'' = Some (25, 0) \<and> unpack_hh_mm ''12:75'' = Some (12, 75)
   \<and> parse_time_hhmm now ''25:00'' = Inl ValueError
   \<and> parse_time_hhmm now ''12:75'' = Inl ValueError
   \<and> best_departure_datetime now_e now_s sched ''25:00'' = Inl ValueError
   \<and> best_departure_datetime now_e now_s sched ''12:75'' = Inl ValueError
   \<and> best_departure_datetime now_e now_s ''25:00'' [] = Inl ValueError
   \<and> best_departure_datetime now_e now_s ''12:75'' ''Delayed'' = Inl ValueError"
proof -
  have p1: "parse_time_hhmm n ''25:00'' = Inl ValueError" for n
    by (simp add: parse_time_hhmm_def unpack_2500 dt_replace_def c_int_range_def)
  have p2: "parse_time_hhmm n ''12:75'' = Inl ValueError" for n
    by (simp add: parse_time_hhmm_def unpack_1275 dt_replace_def c_int_range_def)
  show ?thesis
    by (simp add: p1 p2 unpack_2500 unpack_1275 best_departure_datetime_def from_std_def)
qed
section \<open>What a resolved instant looks like\<close>

lemma dt_replace_InrD:
  assumes "dt_replace now hh mm = Inr c"
  shows "0 \<le> hh \<and> hh < 24 \<and> 0 \<le> mm \<and> mm < 60
         \<and> c = now\<lparr>hour := hh, minute := mm, second := 0, microsecond := 0\<rparr>"
  using assms by (auto simp: dt_replace_def split: if_splits)

lemma dt_add_InrD:
  assumes "dt_add d delta = Inr r"
  shows "r = from_us (to_us d + delta)" and "to_us r = to_us d + delta"
    and "MINORDINAL \<le> ordinal r" and "ordinal r \<le> MAXORDINAL"
proof -
  from assms have rng: "MINORDINAL \<le> (to_us d + delta) div 86400000000"
      "(to_us d + delta) div 86400000000 \<le> MAXORDINAL"
    and r: "r = from_us (to_us d + delta)"
    by (auto simp: dt_add_def Let_def split: if_splits)
  show "r = from_us (to_us d + delta)" by (rule r)
  show "to_us r = to_us d + delta" unfolding r by (rule to_us_from_us)
  show "MINORDINAL \<le> ordinal r" "ordinal r \<le> MAXORDINAL"
    using rng by (simp_all add: r from_us_def)
qed

lemma parse_time_hhmm_SomeD:
  assumes "parse_time_hhmm now tstr = Inr (Some d)"
  obtains hh mm c where "unpack_hh_mm tstr = Some (hh, mm)"
    and "0 \<le> hh" "hh < 24" "0 \<le> mm" "mm < 60"
    and "c = now\<lparr>hour := hh, minute := mm, second := 0, microsecond := 0\<rparr>"
    and "(to_us c < to_us now - timedelta_hours 6 \<and> dt_add c (timedelta_days 1) = Inr d)
         \<or> (\<not> to_us c < to_us now - timedelta_hours 6 \<and> d = c)"
proof -
  from assms obtain hh mm where u: "unpack_hh_mm tstr = Some (hh, mm)"
    by (auto simp: parse_time_hhmm_def split: option.splits)
  from assms u obtain c where r: "dt_replace now hh mm = Inr c"
    by (auto simp: parse_time_hhmm_def split: sum.splits)
  from assms u r obtain lim where l: "dt_add now (- timedelta_hours 6) = Inr lim"
    by (auto simp: parse_time_hhmm_def split: sum.splits)
  have tl: "to_us lim = to_us now - timedelta_hours 6"
    using dt_add_InrD(2) [OF l] by simp
  have "(dt_less c lim \<and> dt_add c (timedelta_days 1) = Inr d) \<or> (\<not> dt_less c lim \<and> d = c)"
    using assms u r l by (auto simp: parse_time_hhmm_def split: sum.splits if_splits)
  then have "(to_us c < to_us now - timedelta_hours 6 \<and> dt_add c (timedelta_days 1) = Inr d)
         \<or> (\<not> to_us c < to_us now - timedelta_hours 6 \<and> d = c)"
    by (simp add: dt_less_def tl)
  with u dt_replace_InrD [OF r] that show thesis by blast
qed

lemma parse_time_hhmm_window:
  assumes v: "valid_datetime now" and p: "parse_time_hhmm now tstr = Inr (Some d)"
  shows "to_us now - timedelta_hours 6 \<le> to_us d \<and> to_us d < to_us now + timedelta_days 1
         \<and> ordinal now \<le> ordinal d \<and> ordinal d \<le> ordinal now + 1"
proof -
  from p obtain hh mm c where
    rng: "0 \<le> hh" "hh < 24" "0 \<le> mm" "mm < 60"
    and c: "c = now\<lparr>hour := hh, minute := mm, second := 0, microsecond := 0\<rparr>"
    and alt: "(to_us c < to_us now - timedelta_hours 6 \<and> dt_add c (timedelta_days 1) = Inr d)
              \<or> (\<not> to_us c < to_us now - timedelta_hours 6 \<and> d = c)"
    by (rule parse_time_hhmm_SomeD)
  have tfn: "time_fields_ok now" using v by (rule valid_time_fields)
  have tfc: "time_fields_ok c" using rng c by (simp add: time_fields_ok_def)
  have oc: "ordinal c = ordinal now" using c by simp
  note bn = to_us_bounds [OF tfn]
  note bc = to_us_bounds [OF tfc]
  from alt show ?thesis
  proof
    assume a: "to_us c < to_us now - timedelta_hours 6 \<and> dt_add c (timedelta_days 1) = Inr d"
    then have ad: "dt_add c (timedelta_days 1) = Inr d" by simp
    have d: "d = from_us (to_us c + 1 * 86400000000)"
      using dt_add_InrD(1) [OF ad] by (simp add: timedelta_days_def)
    have td: "to_us d = to_us c + 86400000000"
      using dt_add_InrD(2) [OF ad] by (simp add: timedelta_days_def)
    have "d = c\<lparr>ordinal := ordinal c + 1\<rparr>"
      unfolding d using tfc by (rule from_us_shift)
    then have od: "ordinal d = ordinal now + 1" using oc by simp
    show ?thesis
      using a td od bn bc oc by (simp add: timedelta_hours_def timedelta_days_def)
  next
    assume a: "\<not> to_us c < to_us now - timedelta_hours 6 \<and> d = c"
    then show ?thesis
      using bn bc oc by (simp add: timedelta_hours_def timedelta_days_def)
  qed
qed

lemma from_std_cases:
  assumes "from_std now_s s = Inr (x, b)"
  shows "(x = None \<and> b = None) \<or> (\<exists>d. x = Some d \<and> b = Some ''Scheduled'' \<and> parse_time_hhmm now_s s = Inr (Some d))"
  using assms by (auto simp: from_std_def split: if_splits sum.splits option.splits)

lemma best_departure_datetime_cases:
  assumes "best_departure_datetime now_e now_s s e = Inr (x, b)"
  shows "(x = None \<and> b = None)
         \<or> (\<exists>d. x = Some d \<and> b = Some ''Estimated'' \<and> parse_time_hhmm now_e e = Inr (Some d))
         \<or> (\<exists>d. x = Some d \<and> b = Some ''Scheduled'' \<and> parse_time_hhmm now_s s = Inr (Some d))"
  using assms from_std_cases [of now_s s x b]
  by (auto simp: best_departure_datetime_def split: if_splits sum.splits option.splits)

lemma parse_time_hhmm_None:
  "unpack_hh_mm tstr = None \<Longrightarrow> parse_time_hhmm now tstr = Inr None"
  by (simp add: parse_time_hhmm_def)

lemma parse_time_hhmm_fields:
  assumes "valid_datetime now" and "MINORDINAL < ordinal now" and "ordinal now < MAXORDINAL"
    and "unpack_hh_mm tstr = Some (hh, mm)"
    and "0 \<le> hh" and "hh < 24" and "0 \<le> mm" and "mm < 60"
  shows "\<exists>d. parse_time_hhmm now tstr = Inr (Some d) \<and> hour d = hh \<and> minute d = mm
             \<and> second d = 0 \<and> microsecond d = 0"
  unfolding parse_time_hhmm_value [OF assms] by simp

lemma unpack_Some_has_colon:
  assumes "unpack_hh_mm tstr = Some (hh, mm)"
  shows "tstr \<noteq> [] \<and> CHR '':'' \<in> set tstr"
proof -
  have nc: "CHR '':'' \<notin> set s \<Longrightarrow> split_colon s = [s]" for s
    by (induction s) auto
  have "split_colon tstr \<noteq> [tstr]"
    using assms by (auto simp: unpack_hh_mm_def split: list.splits option.splits)
  with nc have "CHR '':'' \<in> set tstr" by blast
  then show ?thesis by auto
qed

lemma best_departure_estimated:
  assumes "parse_time_hhmm now_e est = Inr (Some d)"
  shows "best_departure_datetime now_e now_s sched est = Inr (Some d, Some ''Estimated'')"
proof -
  from assms obtain hh mm where "unpack_hh_mm est = Some (hh, mm)"
    by (auto simp: parse_time_hhmm_def split: option.splits)
  then have "est \<noteq> [] \<and> CHR '':'' \<in> set est" by (rule unpack_Some_has_colon)
  with assms show ?thesis by (simp add: best_departure_datetime_def)
qed

lemma best_departure_scheduled:
  assumes "ascii_only est" and "unpack_hh_mm est = None"
    and "parse_time_hhmm now_s sched = Inr (Some d)"
  shows "best_departure_datetime now_e now_s sched est = Inr (Some d, Some ''Scheduled'')"
proof -
  from assms(3) obtain hh mm where "unpack_hh_mm sched = Some (hh, mm)"
    by (auto simp: parse_time_hhmm_def split: option.splits)
  then have "sched \<noteq> []" using unpack_Some_has_colon by blast
  with assms show ?thesis
    by (simp add: best_departure_datetime_def from_std_def parse_time_hhmm_None)
qed

lemma digit_char_props:
  assumes "k < 10"
  shows "is_digit (digit_char k)" and "\<not> is_space (digit_char k)"
    and "digit_char k \<noteq> CHR '':''" and "digit_char k \<noteq> CHR ''-''"
    and "digit_char k \<noteq> CHR ''+''" and "digit_char k \<noteq> CHR ''_''"
    and "digit_val (digit_char k) = int k"
proof -
  from assms have "k \<in> {0, 1, 2, 3, 4, 5, 6, 7, 8, 9}" by auto
  then show "is_digit (digit_char k)" and "\<not> is_space (digit_char k)"
    and "digit_char k \<noteq> CHR '':''" and "digit_char k \<noteq> CHR ''-''"
    and "digit_char k \<noteq> CHR ''+''" and "digit_char k \<noteq> CHR ''_''"
    and "digit_val (digit_char k) = int k"
    by (auto simp: digit_char_def is_digit_def is_space_def digit_val_def)
qed

lemma pad2_two_digits:
  assumes "n < 100"
  shows "pad2 (int n) = [digit_char (n div 10), digit_char (n mod 10)]"
proof (cases "n < 10")
  case True
  then show ?thesis by (simp add: pad2_def show_int_def digit_char_def)
next
  case False
  with assms have "n div 10 < 10" by simp
  with False show ?thesis by (simp add: pad2_def show_int_def)
qed

lemma py_int_two_digits:
  assumes "a < 10" and "b < 10"
  shows "py_int [digit_char a, digit_char b] = Some (int (10 * a + b))"
  using digit_char_props [OF assms(1)] digit_char_props [OF assms(2)]
  by (simp add: py_int_def strip_def body_val_def)

lemma unpack_hh_mm_pad2:
  assumes "h < 100" and "m < 100"
  shows "unpack_hh_mm (pad2 (int h) @ '':'' @ pad2 (int m)) = Some (int h, int m)"
proof -
  have a: "h div 10 < 10" "h mod 10 < 10" "m div 10 < 10" "m mod 10 < 10"
    using assms by simp_all
  have s: "split_colon (pad2 (int h) @ '':'' @ pad2 (int m))
           = [[digit_char (h div 10), digit_char (h mod 10)], [digit_char (m div 10), digit_char (m mod 10)]]"
    using digit_char_props(3) [OF a(1)] digit_char_props(3) [OF a(2)]
      digit_char_props(3) [OF a(3)] digit_char_props(3) [OF a(4)]
    by (simp add: pad2_two_digits assms)
  show ?thesis
    unfolding unpack_hh_mm_def s
    by (simp add: py_int_two_digits a)
qed

section \<open>Preference order\<close>

text \<open>
  C2. With the scheduled field 14:05 (which parses, to hour 14 and minute 5) and the
  estimated field 25:00 (not a valid clock time), \<open>best_departure_datetime\<close> does not
  fall back to the scheduled time: the \<^verbatim>\<open>ValueError\<close> of \<^verbatim>\<open>replace\<close> on the estimated
  field leaves the function, at every clock reading.
\<close>

theorem estimated_out_of_range_blocks_scheduled:
  "unpack_hh_mm ''14:05'' = Some (14, 5)
   \<and> best_departure_datetime now_e now_s ''14:05'' ''25:00'' = Inl ValueError"
proof -
  have "parse_time_hhmm now_e ''25:00'' = Inl ValueError"
    by (simp add: parse_time_hhmm_def unpack_2500 dt_replace_def c_int_range_def)
  then show ?thesis
    by (simp add: unpack_1405 best_departure_datetime_def)
qed

section \<open>Valid clock fields\<close>

text \<open>
  C3. For every hour \<open>h\<close> in 0..23 and minute \<open>m\<close> in 0..59, written as the two-digit
  field HH:MM: supplied as the estimated field it is resolved, whatever the scheduled
  field is, to an instant with that hour and minute (seconds zero); supplied as the
  scheduled field next to an estimated field (of ASCII characters) that does not parse,
  likewise. The clock readings are valid datetimes not on the first or last day a
  datetime can hold.
\<close>

theorem valid_clock_field_resolves:
  assumes "h < 24" and "m < 60"
    and "valid_datetime now_e" and "MINORDINAL < ordinal now_e" and "ordinal now_e < MAXORDINAL"
    and "valid_datetime now_s" and "MINORDINAL < ordinal now_s" and "ordinal now_s < MAXORDINAL"
  shows "(\<exists>d. best_departure_datetime now_e now_s sched (pad2 (int h) @ '':'' @ pad2 (int m))
                = Inr (Some d, Some ''Estimated'')
              \<and> hour d = int h \<and> minute d = int m \<and> second d = 0 \<and> microsecond d = 0)
         \<and> (ascii_only est \<and> unpack_hh_mm est = None \<longrightarrow>
              (\<exists>d. best_departure_datetime now_e now_s (pad2 (int h) @ '':'' @ pad2 (int m)) est
                     = Inr (Some d, Some ''Scheduled'')
                   \<and> hour d = int h \<and> minute d = int m \<and> second d = 0 \<and> microsecond d = 0))"
proof -
  let ?f = "pad2 (int h) @ '':'' @ pad2 (int m)"
  have u: "unpack_hh_mm ?f = Some (int h, int m)"
    using assms(1,2) by (intro unpack_hh_mm_pad2) simp_all
  have r: "0 \<le> int h" "int h < 24" "0 \<le> int m" "int m < 60"
    using assms(1,2) by simp_all
  from parse_time_hhmm_fields [OF assms(3,4,5) u r] obtain d where
    d: "parse_time_hhmm now_e ?f = Inr (Some d)" "hour d = int h" "minute d = int m"
       "second d = 0" "microsecond d = 0"
    by blast
  from parse_time_hhmm_fields [OF assms(6,7,8) u r] obtain d' where
    d': "parse_time_hhmm now_s ?f = Inr (Some d')" "hour d' = int h" "minute d' = int m"
       "second d' = 0" "microsecond d' = 0"
    by blast
  show ?thesis
    using best_departure_estimated [OF d(1), of now_s sched] d(2-5)
      best_departure_scheduled [OF _ _ d'(1), of est now_e] d'(2-5)
    by auto
qed

text \<open>C3 at the field 14:05, as estimated field and as scheduled field.\<close>

theorem valid_clock_field_resolves_witness:
  "best_departure_datetime
      \<lparr>ordinal = 739000, hour = 10, minute = 0, second = 0, microsecond = 0\<rparr>
      \<lparr>ordinal = 739000, hour = 10, minute = 0, second = 1, microsecond = 0\<rparr>
      ''Cancelled'' ''14:05''
     = Inr (Some \<lparr>ordinal = 739000, hour = 14, minute = 5, second = 0, microsecond = 0\<rparr>, Some ''Estimated'')
   \<and> best_departure_datetime
      \<lparr>ordinal = 739000, hour = 10, minute = 0, second = 0, microsecond = 0\<rparr>
      \<lparr>ordinal = 739000, hour = 10, minute = 0, second = 1, microsecond = 0\<rparr>
      ''14:05'' ''Delayed''
     = Inr (Some \<lparr>ordinal = 739000, hour = 14, minute = 5, second = 0, microsecond = 0\<rparr>, Some ''Scheduled'')"
proof -
  have p: "pad2 (int 14) @ '':'' @ pad2 (int 5) = ''14:05''"
    by code_simp
  have e: "parse_time_hhmm \<lparr>ordinal = 739000, hour = 10, minute = 0, second = 0, microsecond = 0\<rparr> ''14:05''
             = Inr (Some \<lparr>ordinal = 739000, hour = 14, minute = 5, second = 0, microsecond = 0\<rparr>)"
    and s: "parse_time_hhmm \<lparr>ordinal = 739000, hour = 10, minute = 0, second = 1, microsecond = 0\<rparr> ''14:05''
             = Inr (Some \<lparr>ordinal = 739000, hour = 14, minute = 5, second = 0, microsecond = 0\<rparr>)"
    by code_simp+
  show ?thesis
    using valid_clock_field_resolves [of 14 5
        "\<lparr>ordinal = 739000, hour = 10, minute = 0, second = 0, microsecond = 0\<rparr>"
        "\<lparr>ordinal = 739000, hour = 10, minute = 0, second = 1, microsecond = 0\<rparr>"
        "''Cancelled''" "''Delayed''"]
      best_departure_estimated [OF e] best_departure_scheduled [OF _ unpack_Delayed s]
    unfolding p
    by (simp add: valid_datetime_def MINORDINAL_def MAXORDINAL_def unpack_Delayed ascii_only_def)
qed

section \<open>Unresolved services\<close>

text \<open>
  C4. When neither the scheduled nor the estimated field (fields of ASCII characters,
  where \<open>unpack_hh_mm\<close> is the program's split and \<^verbatim>\<open>int\<close>) is a colon-separated pair
  of integers, \<open>best_departure_datetime\<close> returns \<^verbatim>\<open>(None, None)\<close>: no instant and no
  basis (the specification's Unresolved).
\<close>

theorem neither_field_parses:
  assumes "ascii_only sched" and "ascii_only est"
    and "unpack_hh_mm sched = None" and "unpack_hh_mm est = None"
  shows "best_departure_datetime now_e now_s sched est = Inr (None, None)"
  using assms(3,4) by (simp add: best_departure_datetime_def from_std_def parse_time_hhmm_None)

text \<open>C4 at two empty fields, and at Cancelled with an empty estimated field.\<close>

theorem neither_field_parses_witness:
  "best_departure_datetime
      \<lparr>ordinal = 739000, hour = 10, minute = 0, second = 0, microsecond = 0\<rparr> \<lparr>ordinal = 739000, hour = 10, minute = 0, second = 0, microsecond = 0\<rparr> [] [] = Inr (None, None)
   \<and> best_departure_datetime
      \<lparr>ordinal = 739000, hour = 10, minute = 0, second = 0, microsecond = 0\<rparr> \<lparr>ordinal = 739000, hour = 10, minute = 0, second = 0, microsecond = 0\<rparr> ''Cancelled'' [] = Inr (None, None)"
  using
    neither_field_parses [of "[]" "[]"
      "\<lparr>ordinal = 739000, hour = 10, minute = 0, second = 0, microsecond = 0\<rparr>" "\<lparr>ordinal = 739000, hour = 10, minute = 0, second = 0, microsecond = 0\<rparr>"]
    neither_field_parses [of "''Cancelled''" "[]"
      "\<lparr>ordinal = 739000, hour = 10, minute = 0, second = 0, microsecond = 0\<rparr>" "\<lparr>ordinal = 739000, hour = 10, minute = 0, second = 0, microsecond = 0\<rparr>"]
  by (simp add: unpack_empty unpack_Cancelled ascii_only_def)

lemma services_loop_invariant:
  assumes "services_loop clk i acc raws = Inr svcs"
    and "\<forall>s\<in>set acc. (depart_dt s \<noteq> None) = (basis s \<noteq> None)"
  shows "\<forall>s\<in>set svcs. (depart_dt s \<noteq> None) = (basis s \<noteq> None)"
  using assms
proof (induction raws arbitrary: i acc)
  case Nil
  then show ?case by simp
next
  case (Cons r rs)
  from Cons.prems(1) obtain x b where
    res: "best_departure_datetime (fst (clk i)) (snd (clk i)) (std r) (etd r) = Inr (x, b)"
    by (auto split: sum.splits)
  let ?s = "\<lparr> std = std r, etd = etd r, operator = operator r, destination = destination r,
               platform = platform r, basis = b, depart_dt = x \<rparr>"
  from Cons.prems(1) res have loop: "services_loop clk (Suc i) (acc @ [?s]) rs = Inr svcs"
    by simp
  have "(x \<noteq> None) = (b \<noteq> None)"
    using best_departure_datetime_cases [OF res] by auto
  with Cons.prems(2) have "\<forall>s\<in>set (acc @ [?s]). (depart_dt s \<noteq> None) = (basis s \<noteq> None)"
    by simp
  with loop show ?case by (rule Cons.IH)
qed

text \<open>
  C5. In every service that \<open>fetch_services\<close> returns, \<open>depart_dt\<close> is present exactly
  when \<open>basis\<close> is present (is not the Unresolved \<^verbatim>\<open>None\<close>).
\<close>

theorem depart_dt_present_iff_basis:
  assumes "fetch_services clk resp = Inr svcs"
  shows "\<forall>s\<in>set svcs. (depart_dt s \<noteq> None) = (basis s \<noteq> None)"
proof (cases resp)
  case (Failed e)
  with assms show ?thesis by (simp add: fetch_services_def)
next
  case (Board raws)
  with assms have "services_loop clk 0 [] raws = Inr svcs"
    by (simp add: fetch_services_def)
  then show ?thesis by (rule services_loop_invariant) simp
qed

text \<open>C5 on a board of two services, one resolved from its scheduled time and one unresolved.\<close>

theorem depart_dt_present_iff_basis_witness:
  "fetch_services (steady_clock \<lparr>ordinal = 739000, hour = 9, minute = 10, second = 0, microsecond = 0\<rparr>)
       (Board [\<lparr>std = ''09:15'', etd = ''On time'', operator = ''GW'', destination = Some ''Oxford'',
              platform = ''3''\<rparr>,
               \<lparr>std = ''Cancelled'', etd = [], operator = ''GW'', destination = None,
              platform = []\<rparr>])
     = Inr [\<lparr>std = ''09:15'', etd = ''On time'', operator = ''GW'', destination = Some ''Oxford'',
              platform = ''3'', basis = Some ''Scheduled'',
              depart_dt = Some \<lparr>ordinal = 739000, hour = 9, minute = 15, second = 0, microsecond = 0\<rparr>\<rparr>,
            \<lparr>std = ''Cancelled'', etd = [], operator = ''GW'', destination = None,
              platform = [], basis = None, depart_dt = None\<rparr>]
   \<and> (depart_dt \<lparr>std = ''09:15'', etd = ''On time'', operator = ''GW'', destination = Some ''Oxford'',
              platform = ''3'', basis = Some ''Scheduled'',
              depart_dt = Some \<lparr>ordinal = 739000, hour = 9, minute = 15, second = 0, microsecond = 0\<rparr>\<rparr> \<noteq> None)
       = (basis \<lparr>std = ''09:15'', etd = ''On time'', operator = ''GW'', destination = Some ''Oxford'',
              platform = ''3'', basis = Some ''Scheduled'',
              depart_dt = Some \<lparr>ordinal = 739000, hour = 9, minute = 15, second = 0, microsecond = 0\<rparr>\<rparr> \<noteq> None)
   \<and> (depart_dt \<lparr>std = ''Cancelled'', etd = [], operator = ''GW'', destination = None,
              platform = [], basis = None, depart_dt = None\<rparr> \<noteq> None)
       = (basis \<lparr>std = ''Cancelled'', etd = [], operator = ''GW'', destination = None,
              platform = [], basis = None, depart_dt = None\<rparr> \<noteq> None)"
proof -
  have e: "fetch_services (steady_clock \<lparr>ordinal = 739000, hour = 9, minute = 10, second = 0, microsecond = 0\<rparr>)
       (Board [\<lparr>std = ''09:15'', etd = ''On time'', operator = ''GW'', destination = Some ''Oxford'',
              platform = ''3''\<rparr>,
               \<lparr>std = ''Cancelled'', etd = [], operator = ''GW'', destination = None,
              platform = []\<rparr>])
     = Inr [\<lparr>std = ''09:15'', etd = ''On time'', operator = ''GW'', destination = Some ''Oxford'',
              platform = ''3'', basis = Some ''Scheduled'',
              depart_dt = Some \<lparr>ordinal = 739000, hour = 9, minute = 15, second = 0, microsecond = 0\<rparr>\<rparr>,
            \<lparr>std = ''Cancelled'', etd = [], operator = ''GW'', destination = None,
              platform = [], basis = None, depart_dt = None\<rparr>]"
    by code_simp
  from depart_dt_present_iff_basis [OF e] e show ?thesis by simp
qed

section \<open>The six-hour window\<close>

text \<open>
  C6. Whenever \<open>best_departure_datetime\<close> returns an instant \<open>d\<close>, then with \<open>now\<close> the
  clock reading of the call that produced it (the one on the estimated field for basis
  Estimated, the one on the scheduled field for Scheduled): \<open>d\<close> is not earlier than
  \<open>now\<close> minus six hours, is less than one day after \<open>now\<close>, and its date is today's or
  tomorrow's.
\<close>

theorem departure_instant_window:
  assumes "valid_datetime now_e" and "valid_datetime now_s"
    and "best_departure_datetime now_e now_s sched est = Inr (Some d, b)"
  shows "(b = Some ''Estimated''
            \<and> to_us now_e - timedelta_hours 6 \<le> to_us d \<and> to_us d < to_us now_e + timedelta_days 1
            \<and> ordinal now_e \<le> ordinal d \<and> ordinal d \<le> ordinal now_e + 1)
         \<or> (b = Some ''Scheduled''
            \<and> to_us now_s - timedelta_hours 6 \<le> to_us d \<and> to_us d < to_us now_s + timedelta_days 1
            \<and> ordinal now_s \<le> ordinal d \<and> ordinal d \<le> ordinal now_s + 1)"
  using best_departure_datetime_cases [OF assms(3)]
    parse_time_hhmm_window [OF assms(1), of est d] parse_time_hhmm_window [OF assms(2), of sched d]
  by auto

text \<open>C6 at 23:50 with the estimated field 00:10, resolved to ten past midnight of the next day.\<close>

theorem departure_instant_window_witness:
  "best_departure_datetime
      \<lparr>ordinal = 739000, hour = 23, minute = 50, second = 0, microsecond = 0\<rparr>
      \<lparr>ordinal = 739000, hour = 23, minute = 50, second = 0, microsecond = 0\<rparr>
      ''14:05'' ''00:10''
     = Inr (Some \<lparr>ordinal = 739001, hour = 0, minute = 10, second = 0, microsecond = 0\<rparr>, Some ''Estimated'')
   \<and> to_us \<lparr>ordinal = 739000, hour = 23, minute = 50, second = 0, microsecond = 0\<rparr> - timedelta_hours 6
       \<le> to_us \<lparr>ordinal = 739001, hour = 0, minute = 10, second = 0, microsecond = 0\<rparr>
   \<and> to_us \<lparr>ordinal = 739001, hour = 0, minute = 10, second = 0, microsecond = 0\<rparr>
       < to_us \<lparr>ordinal = 739000, hour = 23, minute = 50, second = 0, microsecond = 0\<rparr> + timedelta_days 1"
proof -
  let ?n = "\<lparr>ordinal = 739000, hour = 23, minute = 50, second = 0, microsecond = 0\<rparr>"
  let ?d = "\<lparr>ordinal = 739001, hour = 0, minute = 10, second = 0, microsecond = 0\<rparr>"
  have v: "valid_datetime ?n"
    by (simp add: valid_datetime_def MINORDINAL_def MAXORDINAL_def)
  have e: "best_departure_datetime ?n ?n ''14:05'' ''00:10'' = Inr (Some ?d, Some ''Estimated'')"
    by code_simp
  show ?thesis
    using departure_instant_window [OF v v e] e by simp
qed

section \<open>The countdown\<close>

lemma total_sec_pos_le:
  assumes "0 < total_sec target now"
  shows "total_sec target now * 1000000 \<le> to_us target - to_us now"
proof -
  let ?d = "to_us target - to_us now"
  have nn: "0 \<le> ?d"
  proof (rule ccontr)
    assume "\<not> 0 \<le> ?d"
    then have "total_sec target now = - ((- ?d) div 1000000)" by (simp add: total_sec_def Let_def)
    moreover have "0 \<le> (- ?d) div 1000000" using \<open>\<not> 0 \<le> ?d\<close> by (simp add: pos_imp_zdiv_nonneg_iff)
    ultimately show False using assms by simp
  qed
  then have t: "total_sec target now = ?d div 1000000" by (simp add: total_sec_def Let_def)
  have "1000000 * (?d div 1000000) + ?d mod 1000000 = ?d" by simp
  moreover have "0 \<le> ?d mod 1000000" by simp
  ultimately show ?thesis unfolding t by linarith
qed

lemma start_at_in_range:
  assumes "valid_datetime target" and "valid_datetime now" and "300 < total_sec target now"
  shows "\<exists>start_at. dt_add now (timedelta_seconds (total_sec target now - 300)) = Inr start_at"
proof -
  let ?t = "to_us now + (total_sec target now - 300) * 1000000"
  have le: "total_sec target now * 1000000 \<le> to_us target - to_us now"
    using assms(3) by (intro total_sec_pos_le) simp
  have bn: "ordinal now * 86400000000 \<le> to_us now"
    using assms(2) by (intro to_us_bounds(1) valid_time_fields)
  have bt: "to_us target < ordinal target * 86400000000 + 86400000000"
    using assms(1) by (intro to_us_bounds(2) valid_time_fields)
  have on: "MINORDINAL \<le> ordinal now" using assms(2) by (simp add: valid_datetime_def)
  have ot: "ordinal target \<le> MAXORDINAL" using assms(1) by (simp add: valid_datetime_def)
  have "MINORDINAL * 86400000000 \<le> ?t" using bn on assms(3) by simp
  then have lo: "MINORDINAL \<le> ?t div 86400000000" by (rule day_div_lower)
  have "?t < MAXORDINAL * 86400000000 + 86400000000" using le bt ot by simp
  then have hi: "?t div 86400000000 \<le> MAXORDINAL" by (rule day_div_upper)
  show ?thesis using lo hi by (simp add: dt_add_def timedelta_seconds_def)
qed

lemma countdown_step_result:
  assumes "valid_datetime target" and "valid_datetime now"
  shows "\<exists>disp'. countdown_step target now disp = Inr (disp', total_sec target now \<le> 0)
          \<and> placeholder disp' =
              Some (if total_sec target now \<le> 0 then ''## '' @ alarm_clock @ '' Departing now!''
                    else if 300 < total_sec target now then ''## --:--''
                    else ''## '' @ pad2 (total_sec target now div 60) @ '':''
                         @ pad2 (total_sec target now mod 60))"
proof (cases "total_sec target now \<le> 0")
  case True
  then show ?thesis by (simp add: countdown_step_def)
next
  case False
  show ?thesis
  proof (cases "300 < total_sec target now")
    case True
    from start_at_in_range [OF assms True] obtain start_at where
      "dt_add now (timedelta_seconds (total_sec target now - 300)) = Inr start_at" ..
    with True False show ?thesis by (simp add: countdown_step_def Let_def)
  next
    case False
    with \<open>\<not> total_sec target now \<le> 0\<close> show ?thesis by (simp add: countdown_step_def Let_def)
  qed
qed

lemma countdown_loop_trace:
  assumes "valid_datetime target" and "\<forall>now\<in>set nows. valid_datetime now"
  shows "\<exists>shown ended. countdown_loop target nows disp = Inr (shown, ended)
          \<and> length shown \<le> length nows
          \<and> (\<forall>i<length shown.
                placeholder (shown ! i) =
                  Some (if total_sec target (nows ! i) \<le> 0 then ''## '' @ alarm_clock @ '' Departing now!''
                        else if 300 < total_sec target (nows ! i) then ''## --:--''
                        else ''## '' @ pad2 (total_sec target (nows ! i) div 60) @ '':''
                             @ pad2 (total_sec target (nows ! i) mod 60))
                \<and> ((total_sec target (nows ! i) \<le> 0) = (ended \<and> Suc i = length shown)))
          \<and> (\<not> ended \<longrightarrow> length shown = length nows)
          \<and> (ended = (\<exists>now\<in>set nows. total_sec target now \<le> 0))"
  using assms(2)
proof (induction nows arbitrary: disp)
  case Nil
  show ?case by (intro exI [of _ "[]"] exI [of _ False]) simp
next
  case (Cons now rest)
  from Cons.prems have vn: "valid_datetime now" and vr: "\<forall>n\<in>set rest. valid_datetime n"
    by simp_all
  from countdown_step_result [OF assms(1) vn, of disp] obtain disp' where
    st: "countdown_step target now disp = Inr (disp', total_sec target now \<le> 0)"
    and ph: "placeholder disp' =
              Some (if total_sec target now \<le> 0 then ''## '' @ alarm_clock @ '' Departing now!''
                    else if 300 < total_sec target now then ''## --:--''
                    else ''## '' @ pad2 (total_sec target now div 60) @ '':''
                         @ pad2 (total_sec target now mod 60))"
    by blast
  show ?case
  proof (cases "total_sec target now \<le> 0")
    case True
    then have "countdown_loop target (now # rest) disp = Inr ([disp'], True)"
      using st by simp
    with True ph show ?thesis
      by (intro exI [of _ "[disp']"] exI [of _ True]) simp
  next
    case False
    from Cons.IH [OF vr, of disp'] obtain shown ended where
      l: "countdown_loop target rest disp' = Inr (shown, ended)"
      and len: "length shown \<le> length rest"
      and fr: "\<forall>i<length shown.
                placeholder (shown ! i) =
                  Some (if total_sec target (rest ! i) \<le> 0 then ''## '' @ alarm_clock @ '' Departing now!''
                        else if 300 < total_sec target (rest ! i) then ''## --:--''
                        else ''## '' @ pad2 (total_sec target (rest ! i) div 60) @ '':''
                             @ pad2 (total_sec target (rest ! i) mod 60))
                \<and> ((total_sec target (rest ! i) \<le> 0) = (ended \<and> Suc i = length shown))"
      and run: "\<not> ended \<longrightarrow> length shown = length rest"
      and en: "ended = (\<exists>now\<in>set rest. total_sec target now \<le> 0)"
      by blast
    have r: "countdown_loop target (now # rest) disp = Inr (disp' # shown, ended)"
      using st False l by simp
    have nonempty: "ended \<longrightarrow> shown \<noteq> []"
    proof
      assume ended
      then have "rest \<noteq> []" using en by auto
      show "shown \<noteq> []"
      proof
        assume "shown = []"
        with l \<open>rest \<noteq> []\<close> \<open>ended\<close> show False
          by (cases rest) (auto split: sum.splits if_splits prod.splits)
      qed
    qed
    have frames: "\<forall>i<length (disp' # shown).
                placeholder ((disp' # shown) ! i) =
                  Some (if total_sec target ((now # rest) ! i) \<le> 0 then ''## '' @ alarm_clock @ '' Departing now!''
                        else if 300 < total_sec target ((now # rest) ! i) then ''## --:--''
                        else ''## '' @ pad2 (total_sec target ((now # rest) ! i) div 60) @ '':''
                             @ pad2 (total_sec target ((now # rest) ! i) mod 60))
                \<and> ((total_sec target ((now # rest) ! i) \<le> 0) = (ended \<and> Suc i = length (disp' # shown)))"
    proof (intro allI impI)
      fix i assume i: "i < length (disp' # shown)"
      show "placeholder ((disp' # shown) ! i) =
                  Some (if total_sec target ((now # rest) ! i) \<le> 0 then ''## '' @ alarm_clock @ '' Departing now!''
                        else if 300 < total_sec target ((now # rest) ! i) then ''## --:--''
                        else ''## '' @ pad2 (total_sec target ((now # rest) ! i) div 60) @ '':''
                             @ pad2 (total_sec target ((now # rest) ! i) mod 60))
                \<and> ((total_sec target ((now # rest) ! i) \<le> 0) = (ended \<and> Suc i = length (disp' # shown)))"
      proof (cases i)
        case 0
        with False ph nonempty show ?thesis by auto
      next
        case (Suc j)
        with i have "j < length shown" by simp
        with fr Suc show ?thesis by simp
      qed
    qed
    show ?thesis
      using r len frames run en False
      by (intro exI [of _ "disp' # shown"] exI [of _ ended]) simp
  qed
qed

text \<open>
  C8. For a valid target and valid clock readings the loop raises nothing, and on its
  \<open>i\<close>-th pass, with \<open>t\<close> the whole seconds remaining at that pass: if \<open>300 < t\<close> the
  placeholder \<^verbatim>\<open>## --:--\<close> is shown; if \<open>0 < t \<le> 300\<close> the countdown \<^verbatim>\<open>## MM:SS\<close> with
  \<open>MM = t div 60\<close> and \<open>SS = t mod 60\<close>; if \<open>t \<le> 0\<close> the departing message. The loop ends
  at a pass exactly when \<open>t \<le> 0\<close> there, which is then the last pass; it does end if and
  only if some reading has \<open>t \<le> 0\<close>, and until then it makes one pass per reading.
\<close>

theorem countdown_loop_display:
  assumes "valid_datetime target" and "\<forall>now\<in>set nows. valid_datetime now"
  shows "\<exists>shown ended. countdown_loop target nows disp = Inr (shown, ended)
          \<and> length shown \<le> length nows
          \<and> (\<forall>i<length shown.
                (300 < total_sec target (nows ! i) \<longrightarrow> placeholder (shown ! i) = Some ''## --:--'')
              \<and> (0 < total_sec target (nows ! i) \<and> total_sec target (nows ! i) \<le> 300 \<longrightarrow>
                   placeholder (shown ! i) =
                     Some (''## '' @ pad2 (total_sec target (nows ! i) div 60) @ '':''
                           @ pad2 (total_sec target (nows ! i) mod 60)))
              \<and> (total_sec target (nows ! i) \<le> 0 \<longrightarrow>
                   placeholder (shown ! i) = Some (''## '' @ alarm_clock @ '' Departing now!''))
              \<and> ((total_sec target (nows ! i) \<le> 0) = (ended \<and> Suc i = length shown)))
          \<and> (\<not> ended \<longrightarrow> length shown = length nows)
          \<and> (ended = (\<exists>now\<in>set nows. total_sec target now \<le> 0))"
proof -
  from countdown_loop_trace [OF assms, of disp] obtain shown ended where
    l: "countdown_loop target nows disp = Inr (shown, ended)"
    and len: "length shown \<le> length nows"
    and fr: "\<forall>i<length shown.
                placeholder (shown ! i) =
                  Some (if total_sec target (nows ! i) \<le> 0 then ''## '' @ alarm_clock @ '' Departing now!''
                        else if 300 < total_sec target (nows ! i) then ''## --:--''
                        else ''## '' @ pad2 (total_sec target (nows ! i) div 60) @ '':''
                             @ pad2 (total_sec target (nows ! i) mod 60))
                \<and> ((total_sec target (nows ! i) \<le> 0) = (ended \<and> Suc i = length shown))"
    and run: "\<not> ended \<longrightarrow> length shown = length nows"
    and en: "ended = (\<exists>now\<in>set nows. total_sec target now \<le> 0)"
    by blast
  have "\<forall>i<length shown.
                (300 < total_sec target (nows ! i) \<longrightarrow> placeholder (shown ! i) = Some ''## --:--'')
              \<and> (0 < total_sec target (nows ! i) \<and> total_sec target (nows ! i) \<le> 300 \<longrightarrow>
                   placeholder (shown ! i) =
                     Some (''## '' @ pad2 (total_sec target (nows ! i) div 60) @ '':''
                           @ pad2 (total_sec target (nows ! i) mod 60)))
              \<and> (total_sec target (nows ! i) \<le> 0 \<longrightarrow>
                   placeholder (shown ! i) = Some (''## '' @ alarm_clock @ '' Departing now!''))
              \<and> ((total_sec target (nows ! i) \<le> 0) = (ended \<and> Suc i = length shown))"
  proof (intro allI impI)
    fix i assume "i < length shown"
    with fr have
      p: "placeholder (shown ! i) =
                  Some (if total_sec target (nows ! i) \<le> 0 then ''## '' @ alarm_clock @ '' Departing now!''
                        else if 300 < total_sec target (nows ! i) then ''## --:--''
                        else ''## '' @ pad2 (total_sec target (nows ! i) div 60) @ '':''
                             @ pad2 (total_sec target (nows ! i) mod 60))"
      and e: "(total_sec target (nows ! i) \<le> 0) = (ended \<and> Suc i = length shown)"
      by simp_all
    have a: "300 < total_sec target (nows ! i) \<longrightarrow> placeholder (shown ! i) = Some ''## --:--''"
      unfolding p by simp
    have b: "0 < total_sec target (nows ! i) \<and> total_sec target (nows ! i) \<le> 300 \<longrightarrow>
                   placeholder (shown ! i) =
                     Some (''## '' @ pad2 (total_sec target (nows ! i) div 60) @ '':''
                           @ pad2 (total_sec target (nows ! i) mod 60))"
      unfolding p by simp
    have c: "total_sec target (nows ! i) \<le> 0 \<longrightarrow>
                   placeholder (shown ! i) = Some (''## '' @ alarm_clock @ '' Departing now!'')"
      unfolding p by simp
    from a b c e show "(300 < total_sec target (nows ! i) \<longrightarrow> placeholder (shown ! i) = Some ''## --:--'')
              \<and> (0 < total_sec target (nows ! i) \<and> total_sec target (nows ! i) \<le> 300 \<longrightarrow>
                   placeholder (shown ! i) =
                     Some (''## '' @ pad2 (total_sec target (nows ! i) div 60) @ '':''
                           @ pad2 (total_sec target (nows ! i) mod 60)))
              \<and> (total_sec target (nows ! i) \<le> 0 \<longrightarrow>
                   placeholder (shown ! i) = Some (''## '' @ alarm_clock @ '' Departing now!''))
              \<and> ((total_sec target (nows ! i) \<le> 0) = (ended \<and> Suc i = length shown))"
      by (intro conjI)
  qed
  with l len run en show ?thesis by blast
qed

text \<open>
  C8 for a departure at 09:15:00 and readings at 09:09:58.5 (301 seconds left), 09:10:00
  (300 seconds) and 09:14:59.000001 (no whole second left).
\<close>

theorem countdown_loop_display_witness:
  "countdown_loop \<lparr>ordinal = 739000, hour = 9, minute = 15, second = 0, microsecond = 0\<rparr>
       [\<lparr>ordinal = 739000, hour = 9, minute = 9, second = 58, microsecond = 500000\<rparr>,
        \<lparr>ordinal = 739000, hour = 9, minute = 10, second = 0, microsecond = 0\<rparr>,
        \<lparr>ordinal = 739000, hour = 9, minute = 14, second = 59, microsecond = 1\<rparr>]
       \<lparr>placeholder = None, status = None\<rparr>
     = Inr ([\<lparr>placeholder = Some ''## --:--'',
                status = Some ''5-minute countdown will begin at 09:09:59 (in 0m 1s)''\<rparr>,
             \<lparr>placeholder = Some ''## 05:00'',
                status = Some (''Counting down to departure'' @ ellipsis)\<rparr>,
             \<lparr>placeholder = Some (''## '' @ alarm_clock @ '' Departing now!''),
                status = Some (''Counting down to departure'' @ ellipsis)\<rparr>], True)"
proof -
  let ?t = "\<lparr>ordinal = 739000, hour = 9, minute = 15, second = 0, microsecond = 0\<rparr>"
  let ?n0 = "\<lparr>ordinal = 739000, hour = 9, minute = 9, second = 58, microsecond = 500000\<rparr>"
  let ?n1 = "\<lparr>ordinal = 739000, hour = 9, minute = 10, second = 0, microsecond = 0\<rparr>"
  let ?n2 = "\<lparr>ordinal = 739000, hour = 9, minute = 14, second = 59, microsecond = 1\<rparr>"
  let ?d = "\<lparr>placeholder = None, status = None\<rparr>"
  have v: "valid_datetime ?t"
    by (simp add: valid_datetime_def MINORDINAL_def MAXORDINAL_def)
  have vs: "\<forall>now\<in>set [?n0, ?n1, ?n2]. valid_datetime now"
    by (simp add: valid_datetime_def MINORDINAL_def MAXORDINAL_def)
  have c: "countdown_loop ?t [?n0, ?n1, ?n2] ?d
     = Inr ([\<lparr>placeholder = Some ''## --:--'',
                status = Some ''5-minute countdown will begin at 09:09:59 (in 0m 1s)''\<rparr>,
             \<lparr>placeholder = Some ''## 05:00'',
                status = Some (''Counting down to departure'' @ ellipsis)\<rparr>,
             \<lparr>placeholder = Some (''## '' @ alarm_clock @ '' Departing now!''),
                status = Some (''Counting down to departure'' @ ellipsis)\<rparr>], True)"
    by code_simp
  from countdown_loop_display [OF v vs, of ?d] obtain shown ended where
    "countdown_loop ?t [?n0, ?n1, ?n2] ?d = Inr (shown, ended)"
    by blast
  with c show ?thesis by simp
qed

section \<open>A failed fetch\<close>

text \<open>
  C9 as stated fails: after an earlier fetch stored one service in the session, a fetch
  whose request fails with a transport error leaves that service in the displayed list.
\<close>

theorem failed_fetch_keeps_earlier_list:
  "fetch_services (steady_clock \<lparr>ordinal = 739000, hour = 9, minute = 10, second = 0, microsecond = 0\<rparr>)
      (scripted [Failed RequestException] 0) = Inl RequestException
   \<and> displayed_options (fst (snd (fetch_button
        (steady_clock \<lparr>ordinal = 739000, hour = 9, minute = 10, second = 0, microsecond = 0\<rparr>)
        (scripted [Failed RequestException]) 0
        \<lparr>services = Some [\<lparr>std = ''09:15'', etd = ''On time'', operator = ''GW'', destination = Some ''Oxford'',
              platform = ''3'', basis = Some ''Scheduled'',
              depart_dt = Some \<lparr>ordinal = 739000, hour = 9, minute = 15, second = 0, microsecond = 0\<rparr>\<rparr>],
          target_dt = None, chosen = None\<rparr>)))
     = Some [''1. 09:15 '' @ arrow @ '' Oxford (ETD On time, Plat 3, GW)'']"
  by (simp add: fetch_services_def fetch_button_def call_fetch_services_def scripted_def
        displayed_options_def options_def option_label_def py_str_def enumerate_eq_zip
        digit_char_def)

text \<open>
  C9, amended. When the call of \<open>fetch_services\<close> raises, the handler shows the error,
  then the warning \<^verbatim>\<open>No services found.\<close>, and leaves the session state as it was: the
  list of this attempt is empty and is not stored, the list stored by an earlier fetch
  stays. Exactly one request has gone out, the one that failed: there is no retry.
\<close>

theorem failed_fetch_session_unchanged:
  assumes "fetch_services clk (net sent) = Inl e"
  shows "fetch_button clk net sent st
           = ([St_error e, St_warning ''No services found.''], st, Suc sent)"
  using assms by (simp add: fetch_button_def call_fetch_services_def)

text \<open>
  C9, amended, at a service whose first answer is an HTTP error and whose second would be
  a board with one service (the handler does not ask for it), and at a board whose
  estimated field is 25:00.
\<close>

theorem failed_fetch_session_unchanged_witness:
  "fetch_button (steady_clock \<lparr>ordinal = 739000, hour = 9, minute = 10, second = 0, microsecond = 0\<rparr>)
       (scripted [Failed HTTPError, Board [\<lparr>std = ''09:15'', etd = ''On time'', operator = ''GW'', destination = Some ''Oxford'',
              platform = ''3''\<rparr>]]) 0
       \<lparr>services = Some [\<lparr>std = ''09:15'', etd = ''On time'', operator = ''GW'', destination = Some ''Oxford'',
              platform = ''3'', basis = Some ''Scheduled'',
              depart_dt = Some \<lparr>ordinal = 739000, hour = 9, minute = 15, second = 0, microsecond = 0\<rparr>\<rparr>],
          target_dt = None, chosen = None\<rparr>
     = ([St_error HTTPError, St_warning ''No services found.''],
        \<lparr>services = Some [\<lparr>std = ''09:15'', etd = ''On time'', operator = ''GW'', destination = Some ''Oxford'',
              platform = ''3'', basis = Some ''Scheduled'',
              depart_dt = Some \<lparr>ordinal = 739000, hour = 9, minute = 15, second = 0, microsecond = 0\<rparr>\<rparr>],
          target_dt = None, chosen = None\<rparr>, 1)
   \<and> fetch_button (steady_clock \<lparr>ordinal = 739000, hour = 9, minute = 10, second = 0, microsecond = 0\<rparr>)
       (scripted [Board [\<lparr>std = ''09:15'', etd = ''25:00'', operator = ''GW'', destination = Some ''Oxford'',
              platform = ''3''\<rparr>]]) 0
       \<lparr>services = Some [\<lparr>std = ''09:15'', etd = ''On time'', operator = ''GW'', destination = Some ''Oxford'',
              platform = ''3'', basis = Some ''Scheduled'',
              depart_dt = Some \<lparr>ordinal = 739000, hour = 9, minute = 15, second = 0, microsecond = 0\<rparr>\<rparr>],
          target_dt = None, chosen = None\<rparr>
     = ([St_error ValueError, St_warning ''No services found.''],
        \<lparr>services = Some [\<lparr>std = ''09:15'', etd = ''On time'', operator = ''GW'', destination = Some ''Oxford'',
              platform = ''3'', basis = Some ''Scheduled'',
              depart_dt = Some \<lparr>ordinal = 739000, hour = 9, minute = 15, second = 0, microsecond = 0\<rparr>\<rparr>],
          target_dt = None, chosen = None\<rparr>, 1)"
proof -
  let ?clk = "steady_clock \<lparr>ordinal = 739000, hour = 9, minute = 10, second = 0, microsecond = 0\<rparr>"
  have a: "fetch_services ?clk (scripted [Failed HTTPError, Board [\<lparr>std = ''09:15'', etd = ''On time'', operator = ''GW'', destination = Some ''Oxford'',
              platform = ''3''\<rparr>]] 0) = Inl HTTPError"
    by (simp add: fetch_services_def scripted_def)
  have "parse_time_hhmm n ''25:00'' = Inl ValueError" for n
    by (simp add: parse_time_hhmm_def unpack_2500 dt_replace_def c_int_range_def)
  then have b: "fetch_services ?clk (scripted [Board [\<lparr>std = ''09:15'', etd = ''25:00'', operator = ''GW'', destination = Some ''Oxford'',
              platform = ''3''\<rparr>]] 0) = Inl ValueError"
    by (simp add: fetch_services_def best_departure_datetime_def scripted_def)
  show ?thesis
    using
      failed_fetch_session_unchanged [of ?clk
        "scripted [Failed HTTPError, Board [\<lparr>std = ''09:15'', etd = ''On time'', operator = ''GW'', destination = Some ''Oxford'',
              platform = ''3''\<rparr>]]" 0 HTTPError]
      failed_fetch_session_unchanged [of ?clk
        "scripted [Board [\<lparr>std = ''09:15'', etd = ''25:00'', operator = ''GW'', destination = Some ''Oxford'',
              platform = ''3''\<rparr>]]" 0 ValueError]
      a b
    by simp
qed

section \<open>The option labels\<close>

text \<open>
  C10 as stated fails: the label of the only service of a list starts with its position
  \<^verbatim>\<open>1. \<close> and reads \<^verbatim>\<open>Plat\<close>, where the specification's format has no position and reads
  \<^verbatim>\<open>Platform\<close>.
\<close>

theorem option_label_differs_from_spec:
  "options [\<lparr>std = ''09:15'', etd = ''On time'', operator = ''GW'',
              destination = Some ''Oxford'', platform = ''3'',
              basis = Some ''Scheduled'',
              depart_dt = Some \<lparr>ordinal = 739000, hour = 9, minute = 15, second = 0, microsecond = 0\<rparr>\<rparr>]
     = [''1. 09:15 '' @ arrow @ '' Oxford (ETD On time, Plat 3, GW)'']
   \<and> spec_option_label \<lparr>std = ''09:15'', etd = ''On time'', operator = ''GW'',
              destination = Some ''Oxford'', platform = ''3'',
              basis = Some ''Scheduled'',
              depart_dt = Some \<lparr>ordinal = 739000, hour = 9, minute = 15, second = 0, microsecond = 0\<rparr>\<rparr>
     = ''09:15 '' @ arrow @ '' Oxford (ETD On time, Platform 3, GW)''
   \<and> options [\<lparr>std = ''09:15'', etd = ''On time'', operator = ''GW'',
              destination = Some ''Oxford'', platform = ''3'',
              basis = Some ''Scheduled'',
              depart_dt = Some \<lparr>ordinal = 739000, hour = 9, minute = 15, second = 0, microsecond = 0\<rparr>\<rparr>]
     \<noteq> map spec_option_label [\<lparr>std = ''09:15'', etd = ''On time'', operator = ''GW'',
              destination = Some ''Oxford'', platform = ''3'',
              basis = Some ''Scheduled'',
              depart_dt = Some \<lparr>ordinal = 739000, hour = 9, minute = 15, second = 0, microsecond = 0\<rparr>\<rparr>]"
  by (simp add: options_def option_label_def spec_option_label_def py_str_def enumerate_eq_zip arrow_def
        digit_char_def)

text \<open>
  C10, amended. There is one label per service, and the label of the service at index
  \<open>i\<close> is its position \<open>i + 1\<close>, a full stop and a space, followed by
  \<^verbatim>\<open><std> -> <destination> (ETD <etd>, Plat <platform>, <operator>)\<close> with the arrow
  U+2192 and the service's fields (a destination without text prints as \<^verbatim>\<open>None\<close>).
\<close>

theorem options_format:
  assumes "i < length svcs"
  shows "length (options svcs) = length svcs
         \<and> options svcs ! i =
             show_nat (i + 1) @ ''. '' @ std (svcs ! i) @ '' '' @ arrow @ '' ''
             @ py_str (destination (svcs ! i)) @ '' (ETD '' @ etd (svcs ! i)
             @ '', Plat '' @ platform (svcs ! i) @ '', '' @ operator (svcs ! i) @ '')''"
  using assms by (simp add: options_def option_label_def nth_enumerate_eq)

text \<open>C10, amended, at the second of two services.\<close>

theorem options_format_witness:
  "options [\<lparr>std = ''09:15'', etd = ''On time'', operator = ''GW'',
              destination = Some ''Oxford'', platform = ''3'',
              basis = Some ''Scheduled'',
              depart_dt = Some \<lparr>ordinal = 739000, hour = 9, minute = 15, second = 0, microsecond = 0\<rparr>\<rparr>,
            \<lparr>std = ''09:45'', etd = ''Cancelled'', operator = ''XC'',
              destination = None, platform = [],
              basis = Some ''Scheduled'',
              depart_dt = Some \<lparr>ordinal = 739000, hour = 9, minute = 45, second = 0, microsecond = 0\<rparr>\<rparr>] ! 1
     = ''2. 09:45 '' @ arrow @ '' None (ETD Cancelled, Plat , XC)''"
  using options_format [of 1 "[\<lparr>std = ''09:15'', etd = ''On time'', operator = ''GW'',
              destination = Some ''Oxford'', platform = ''3'',
              basis = Some ''Scheduled'',
              depart_dt = Some \<lparr>ordinal = 739000, hour = 9, minute = 15, second = 0, microsecond = 0\<rparr>\<rparr>,
            \<lparr>std = ''09:45'', etd = ''Cancelled'', operator = ''XC'',
              destination = None, platform = [],
              basis = Some ''Scheduled'',
              depart_dt = Some \<lparr>ordinal = 739000, hour = 9, minute = 45, second = 0, microsecond = 0\<rparr>\<rparr>]"]
  by (simp add: py_str_def digit_char_def)


end
